theory Spec2Isabelle
  imports Main
begin

section \<open>Decorator: the backpack chain of \<open>Decorator_1.cpp\<close>\<close>

text \<open>
  The program writes to \<open>cout\<close> only. The stream is modelled by the characters written
  to it so far; \<open>cout << s\<close> appends \<open>s\<close>. Stream failure is not modelled.
\<close>

type_synonym ostream = string

text \<open>
  An \<open>IBackpack\<close> object is an object of one of the five classes of the file. Each
  decorator class holds the private pointer \<open>m_Decorator\<close>, set once by the constructor
  and never changed, so the objects reachable from a backpack form a chain, modelled by
  the nesting of the datatype. The pointer may be null: \<open>None\<close>.
\<close>

datatype IBackpack =
    PlainBackpack
  | BackpackDecorator "IBackpack option"
  | WithLaptopSlot "IBackpack option"
  | WithUSBCharge "IBackpack option"
  | WithWaterBottle "IBackpack option"

text \<open>
  \<open>assemble b cout\<close> is the virtual call \<open>b->assemble()\<close> on the stream \<open>cout\<close>: the result
  is the stream afterwards, or \<open>None\<close> when the call dereferences a null
  \<open>m_Decorator\<close> (undefined behaviour in C++). \<open>BackpackDecorator_assemble\<close> is the
  body of \<open>BackpackDecorator::assemble\<close>, which the three subclasses call by its
  qualified name before they write their own text.
\<close>

fun assemble :: "IBackpack \<Rightarrow> ostream \<Rightarrow> ostream option"
  and BackpackDecorator_assemble :: "IBackpack option \<Rightarrow> ostream \<Rightarrow> ostream option" where
  "assemble PlainBackpack cout = Some (cout @ ''\<newline> ShoulderStraps and mainCompartment'')"
| "assemble (BackpackDecorator m_Decorator) cout = BackpackDecorator_assemble m_Decorator cout"
| "assemble (WithLaptopSlot m_Decorator) cout =
     (case BackpackDecorator_assemble m_Decorator cout of
        None \<Rightarrow> None
      | Some cout' \<Rightarrow> Some (cout' @ '' + LaptopSlot''))"
| "assemble (WithUSBCharge m_Decorator) cout =
     (case BackpackDecorator_assemble m_Decorator cout of
        None \<Rightarrow> None
      | Some cout' \<Rightarrow> Some (cout' @ '' + USBCharge''))"
| "assemble (WithWaterBottle m_Decorator) cout =
     (case BackpackDecorator_assemble m_Decorator cout of
        None \<Rightarrow> None
      | Some cout' \<Rightarrow> Some (cout' @ '' + WaterBottle''))"
| "BackpackDecorator_assemble None cout = None"
| "BackpackDecorator_assemble (Some b) cout = assemble b cout"

text \<open>
  \<open>main\<close> builds the chain and assembles it. The \<open>delete\<close> and the exit status 0 write
  nothing and are left out.
\<close>

definition main :: "ostream \<Rightarrow> ostream option" where
  "main cout =
     (let pBackpack =
            WithWaterBottle (Some
              (WithUSBCharge (Some
                (WithLaptopSlot (Some
                  (BackpackDecorator (Some
                    PlainBackpack)))))))
      in assemble pBackpack cout)"

text \<open>
  To speak about chains of any length: a layer is one of the four decorator classes,
  \<open>wrap\<close> is its constructor applied to a backpack that exists, and \<open>compose base ls\<close>
  applies the constructors of \<open>ls\<close> to \<open>base\<close> from the first (innermost) to the last
  (outermost), the order in which the objects are constructed. \<open>augmentation\<close> is the text
  the layer's own \<open>assemble\<close> writes after forwarding; the plain \<open>BackpackDecorator\<close> writes
  none.
\<close>

datatype layer = Bare | LaptopSlot | USBCharge | WaterBottle

fun wrap :: "layer \<Rightarrow> IBackpack \<Rightarrow> IBackpack" where
  "wrap Bare b = BackpackDecorator (Some b)"
| "wrap LaptopSlot b = WithLaptopSlot (Some b)"
| "wrap USBCharge b = WithUSBCharge (Some b)"
| "wrap WaterBottle b = WithWaterBottle (Some b)"

fun augmentation :: "layer \<Rightarrow> string" where
  "augmentation Bare = []"
| "augmentation LaptopSlot = '' + LaptopSlot''"
| "augmentation USBCharge = '' + USBCharge''"
| "augmentation WaterBottle = '' + WaterBottle''"

definition compose :: "IBackpack \<Rightarrow> layer list \<Rightarrow> IBackpack" where
  "compose base ls = foldl (\<lambda>b l. wrap l b) base ls"

section \<open>Decorator: the forwarding base class of \<open>Decorator.cpp\<close>\<close>

text \<open>
  \<open>VisualComponent::Draw\<close> and \<open>Resize\<close> are declared and not defined in the file, so a
  concrete component carries what its two operations do to the window contents \<open>'w\<close>.
  A \<open>Decorator\<close> holds the pointer \<open>_component\<close> (\<open>None\<close> when null) and forwards both
  operations to it. \<open>BorderDecorator::Draw\<close> has no body in the file and is not modelled.
\<close>

datatype 'w VisualComponent =
    Component "'w \<Rightarrow> 'w" "'w \<Rightarrow> 'w"
  | Decorator "'w VisualComponent option"

fun Draw :: "'w VisualComponent \<Rightarrow> 'w \<Rightarrow> 'w option" where
  "Draw (Component draw resize) w = Some (draw w)"
| "Draw (Decorator None) w = None"
| "Draw (Decorator (Some component)) w = Draw component w"

fun Resize :: "'w VisualComponent \<Rightarrow> 'w \<Rightarrow> 'w option" where
  "Resize (Component draw resize) w = Some (resize w)"
| "Resize (Decorator None) w = None"
| "Resize (Decorator (Some component)) w = Resize component w"

section \<open>Adapter: the two \<open>TextShape\<close> classes of \<open>Adapter.cpp\<close>\<close>

text \<open>
  \<open>Coord\<close> is not declared in the source: it is the type parameter \<open>'c\<close>, of which the code
  needs \<open>+\<close> only.
\<close>

text \<open>
  Modelled from the spec: class \<open>Point\<close> is not declared in the source; the spec calls
  each corner of the bounding box a 2D coordinate. A point is the pair of coordinates
  its constructor is given, in the order the code gives them.
\<close>

datatype 'c Point = Point 'c 'c

text \<open>
  The member functions of \<open>TextView\<close> are declared and not defined. An object that is
  used through the \<open>TextView\<close> interface is therefore its data \<open>state\<close>, of any type
  \<open>'s\<close>, together with the functions the three calls resolve to on it. All three are
  declared \<open>const\<close>: they read the data and return values. \<open>GetOrigin\<close> returns the
  values it stores in \<open>x\<close> and \<open>y\<close>, \<open>GetExtent\<close> those it stores in \<open>width\<close> and
  \<open>height\<close>, in this order. \<open>IsEmpty\<close> is virtual, so a subclass can supply its own;
  \<open>GetOrigin\<close> and \<open>GetExtent\<close> are not, which the model does not rely on.
\<close>

record ('s, 'c) TextView =
  state :: 's
  GetOrigin :: "'s \<Rightarrow> 'c \<times> 'c"
  GetExtent :: "'s \<Rightarrow> 'c \<times> 'c"
  IsEmpty :: "'s \<Rightarrow> bool"

text \<open>
  Objects live in a store. An address holds a \<open>TextView\<close> object (or an object of a
  subclass), a class-adapter \<open>TextShape\<close>, whose only data is its private \<open>TextView\<close>
  base (\<open>Shape\<close> declares none), or an object-adapter \<open>TextShape\<close>, whose only data is
  the pointer \<open>_text\<close>. A pointer is an address; a null or dangling pointer is an
  address that holds no object of the pointer's type, and dereferencing it is \<open>None\<close>.
  \<open>Point\<close> objects are kept apart from the others, as a \<open>Point&\<close> can refer to nothing
  else. Manipulators are allocated by \<open>new\<close> one after the other; the address of a
  manipulator is its position in the list.
\<close>

type_synonym addr = nat

datatype ('s, 'c) object =
    TextView_object "('s, 'c) TextView"
  | TextShape_class "('s, 'c) TextView"
  | TextShape_object addr

text \<open>
  Modelled from the spec: class \<open>TextManipulator\<close> is not declared in the source. The
  spec calls the manipulator an object associated with the object it is created for, so
  a \<open>TextManipulator\<close> is the pointer its constructor was given: the address of a
  \<open>TextShape\<close>.
\<close>

datatype Manipulator = TextManipulator addr

record ('s, 'c) heap =
  objects :: "addr \<rightharpoonup> ('s, 'c) object"
  points :: "addr \<rightharpoonup> 'c Point"
  manipulators :: "Manipulator list"

subsection \<open>The class adapter (lines 57 to 98)\<close>

text \<open>
  A member function takes the address \<open>this\<close> and the store. \<open>BoundingBox\<close> returns the
  store with its two reference parameters assigned, in the order of the two
  assignments of the source.
\<close>

definition class_TextShape_BoundingBox ::
  "addr \<Rightarrow> addr \<Rightarrow> addr \<Rightarrow> ('s, 'c::plus) heap \<Rightarrow> ('s, 'c) heap option" where
  "class_TextShape_BoundingBox this bottomLeft topRight h =
     (case objects h this of
        Some (TextShape_class tv) \<Rightarrow>
          (let (bottom, left) = GetOrigin tv (state tv);
               (width, height) = GetExtent tv (state tv);
               h1 = h\<lparr>points := (points h)(bottomLeft \<mapsto> Point bottom left)\<rparr>;
               h2 = h1\<lparr>points := (points h1)(topRight \<mapsto> Point (bottom + height) (left + width))\<rparr>
           in Some h2)
      | _ \<Rightarrow> None)"

definition class_TextShape_IsEmpty :: "addr \<Rightarrow> ('s, 'c) heap \<Rightarrow> (bool \<times> ('s, 'c) heap) option" where
  "class_TextShape_IsEmpty this h =
     (case objects h this of
        Some (TextShape_class tv) \<Rightarrow> Some (IsEmpty tv (state tv), h)
      | _ \<Rightarrow> None)"

text \<open>
  \<open>new TextManipulator(p)\<close>: the new object is put at the first unused address. That
  \<open>new\<close> can run out of memory is not modelled.
\<close>

definition new_TextManipulator :: "addr \<Rightarrow> ('s, 'c) heap \<Rightarrow> addr \<times> ('s, 'c) heap" where
  "new_TextManipulator p h =
     (length (manipulators h), h\<lparr>manipulators := manipulators h @ [TextManipulator p]\<rparr>)"

definition class_TextShape_CreateManipulator :: "addr \<Rightarrow> ('s, 'c) heap \<Rightarrow> addr \<times> ('s, 'c) heap" where
  "class_TextShape_CreateManipulator this h = new_TextManipulator this h"

subsection \<open>The object adapter (lines 116 to 157)\<close>

definition object_TextShape_TextShape :: "addr \<Rightarrow> addr \<Rightarrow> ('s, 'c) heap \<Rightarrow> ('s, 'c) heap" where
  "object_TextShape_TextShape this t h = h\<lparr>objects := (objects h)(this \<mapsto> TextShape_object t)\<rparr>"

definition object_TextShape_BoundingBox ::
  "addr \<Rightarrow> addr \<Rightarrow> addr \<Rightarrow> ('s, 'c::plus) heap \<Rightarrow> ('s, 'c) heap option" where
  "object_TextShape_BoundingBox this bottomLeft topRight h =
     (case objects h this of
        Some (TextShape_object text) \<Rightarrow>
          (case objects h text of
             Some (TextView_object tv) \<Rightarrow>
               (let (bottom, left) = GetOrigin tv (state tv);
                    (width, height) = GetExtent tv (state tv);
                    h1 = h\<lparr>points := (points h)(bottomLeft \<mapsto> Point bottom left)\<rparr>;
                    h2 = h1\<lparr>points := (points h1)(topRight \<mapsto> Point (bottom + height) (left + width))\<rparr>
                in Some h2)
           | _ \<Rightarrow> None)
      | _ \<Rightarrow> None)"

definition object_TextShape_IsEmpty :: "addr \<Rightarrow> ('s, 'c) heap \<Rightarrow> (bool \<times> ('s, 'c) heap) option" where
  "object_TextShape_IsEmpty this h =
     (case objects h this of
        Some (TextShape_object text) \<Rightarrow>
          (case objects h text of
             Some (TextView_object tv) \<Rightarrow> Some (IsEmpty tv (state tv), h)
           | _ \<Rightarrow> None)
      | _ \<Rightarrow> None)"

definition object_TextShape_CreateManipulator :: "addr \<Rightarrow> ('s, 'c) heap \<Rightarrow> addr \<times> ('s, 'c) heap" where
  "object_TextShape_CreateManipulator this h = new_TextManipulator this h"

subsection \<open>Example objects\<close>

text \<open>
  An implementation of \<open>TextView\<close> that keeps the attributes the spec lists: origin,
  extent and the emptiness flag, over integer coordinates. The second one is a subclass
  that overrides the virtual \<open>IsEmpty\<close>: it reports empty whatever the flag is.
\<close>

definition plain_TextView :: "int \<times> int \<Rightarrow> int \<times> int \<Rightarrow> bool \<Rightarrow> ((int \<times> int) \<times> (int \<times> int) \<times> bool, int) TextView" where
  "plain_TextView org ext emp =
     \<lparr>state = (org, ext, emp), GetOrigin = fst, GetExtent = (\<lambda>s. fst (snd s)),
      IsEmpty = (\<lambda>s. snd (snd s))\<rparr>"

definition always_empty_TextView :: "int \<times> int \<Rightarrow> int \<times> int \<Rightarrow> bool \<Rightarrow> ((int \<times> int) \<times> (int \<times> int) \<times> bool, int) TextView" where
  "always_empty_TextView org ext emp = (plain_TextView org ext emp)\<lparr>IsEmpty := (\<lambda>s. True)\<rparr>"

text \<open>
  A store with a view of the subclass at address 0, an object adapter for it at address
  1, a class adapter at address 2, two points and one manipulator.
\<close>

definition example_heap :: "((int \<times> int) \<times> (int \<times> int) \<times> bool, int) heap" where
  "example_heap =
     \<lparr>objects = [0 \<mapsto> TextView_object (always_empty_TextView (1, 2) (10, 5) False),
                 1 \<mapsto> TextShape_object 0,
                 2 \<mapsto> TextShape_class (plain_TextView (1, 2) (10, 5) True)],
      points = [7 \<mapsto> Point 0 0, 9 \<mapsto> Point 3 4],
      manipulators = [TextManipulator 2]\<rparr>"

section \<open>Theorems about the decorator chain\<close>

lemma assemble_wrap:
  "assemble (wrap l b) cout = map_option (\<lambda>out. out @ augmentation l) (assemble b cout)"
  by (cases l; cases "assemble b cout"; simp)

lemma assemble_compose:
  "assemble (compose base ls) cout =
     map_option (\<lambda>out. out @ concat (map augmentation ls)) (assemble base cout)"
proof (induction ls rule: rev_induct)
  case Nil
  show ?case by (simp add: compose_def option.map_ident)
next
  case (snoc l ls)
  have "assemble (compose base (ls @ [l])) cout = assemble (wrap l (compose base ls)) cout"
    by (simp add: compose_def)
  also have "\<dots> = map_option (\<lambda>out. out @ augmentation l) (assemble (compose base ls) cout)"
    by (rule assemble_wrap)
  also have "\<dots> = map_option (\<lambda>out. out @ concat (map augmentation (ls @ [l]))) (assemble base cout)"
    by (simp add: snoc.IH option.map_comp comp_def)
  finally show ?case .
qed

text \<open>
  Claim C2, as the code has it. \<open>main\<close> appends to the output a newline and a space,
  then the description \<open>ShoulderStraps and mainCompartment + LaptopSlot + USBCharge +
  WaterBottle\<close>: the text of the base first, then the text of each layer from the
  innermost to the outermost, so that of the outermost layer comes last.
\<close>

theorem main_output:
  "main cout =
     Some (cout @ ''\<newline> ShoulderStraps and mainCompartment + LaptopSlot + USBCharge + WaterBottle'')"
  by (simp add: main_def)

text \<open>
  Claim C2 as stated says the output is exactly the description. On the empty stream
  the output of \<open>main\<close> is not that string: \<open>PlainBackpack::assemble\<close> writes a newline and
  a space before it.
\<close>

theorem main_output_counterexample:
  "main [] \<noteq> Some ''ShoulderStraps and mainCompartment + LaptopSlot + USBCharge + WaterBottle''"
  by (simp add: main_def)

text \<open>
  Claim C3. For every base backpack and every list of \<open>N \<ge> 0\<close> decorator layers
  constructed around it, \<open>assemble\<close> on the outermost object writes what the base writes
  and then the augmentation of every layer once, from the innermost layer to the
  outermost: each layer forwards first and appends its own text afterwards. When the
  base is a \<open>PlainBackpack\<close> the call returns, with the text of the base followed by
  the augmentations. (If the base itself ends in a null pointer neither call returns.)
\<close>

theorem assemble_layers_once_in_order:
  "assemble (compose base ls) cout =
     map_option (\<lambda>out. out @ concat (map augmentation ls)) (assemble base cout)
   \<and> assemble (compose PlainBackpack ls) cout =
       Some (cout @ ''\<newline> ShoulderStraps and mainCompartment'' @ concat (map augmentation ls))"
proof
  show "assemble (compose base ls) cout =
     map_option (\<lambda>out. out @ concat (map augmentation ls)) (assemble base cout)"
    by (rule assemble_compose)
  show "assemble (compose PlainBackpack ls) cout =
       Some (cout @ ''\<newline> ShoulderStraps and mainCompartment'' @ concat (map augmentation ls))"
    by (simp add: assemble_compose)
qed

text \<open>
  Claim C8. A plain \<open>BackpackDecorator\<close> around any backpack \<open>b\<close> assembles exactly as
  \<open>b\<close> does, on every stream (also when \<open>b\<close> does not return); so the chain of \<open>main\<close>
  writes what the same chain without its \<open>BackpackDecorator\<close> layer writes. The
  forwarding \<open>Decorator\<close> of \<open>Decorator.cpp\<close> is an identity in the same way for \<open>Draw\<close>
  and \<open>Resize\<close>.
\<close>

theorem plain_decorator_identity:
  "assemble (BackpackDecorator (Some b)) cout = assemble b cout
   \<and> main cout =
       assemble (WithWaterBottle (Some (WithUSBCharge (Some (WithLaptopSlot (Some PlainBackpack))))))
         cout
   \<and> Draw (Decorator (Some component)) w = Draw component w
   \<and> Resize (Decorator (Some component)) w = Resize component w"
  by (simp add: main_def)

section \<open>Theorems about the adapters\<close>

subsection \<open>What the operations return\<close>

lemma class_BoundingBox_eq:
  assumes "objects h this = Some (TextShape_class tv)"
    and "GetOrigin tv (state tv) = (x, y)"
    and "GetExtent tv (state tv) = (w, ht)"
  shows "class_TextShape_BoundingBox this bl tr h =
           Some (h\<lparr>points := (points h)(bl \<mapsto> Point x y, tr \<mapsto> Point (x + ht) (y + w))\<rparr>)"
  using assms by (simp add: class_TextShape_BoundingBox_def)

lemma object_BoundingBox_eq:
  assumes "objects h this = Some (TextShape_object t)"
    and "objects h t = Some (TextView_object tv)"
    and "GetOrigin tv (state tv) = (x, y)"
    and "GetExtent tv (state tv) = (w, ht)"
  shows "object_TextShape_BoundingBox this bl tr h =
           Some (h\<lparr>points := (points h)(bl \<mapsto> Point x y, tr \<mapsto> Point (x + ht) (y + w))\<rparr>)"
  using assms by (simp add: object_TextShape_BoundingBox_def)

lemma class_BoundingBox_frame:
  assumes "class_TextShape_BoundingBox this bl tr h = Some h'"
  shows "objects h' = objects h \<and> manipulators h' = manipulators h
    \<and> (\<forall>a. a \<noteq> bl \<and> a \<noteq> tr \<longrightarrow> points h' a = points h a)"
  using assms
  by (auto simp: class_TextShape_BoundingBox_def split: option.splits object.splits prod.splits)

lemma object_BoundingBox_frame:
  assumes "object_TextShape_BoundingBox this bl tr h = Some h'"
  shows "objects h' = objects h \<and> manipulators h' = manipulators h
    \<and> (\<forall>a. a \<noteq> bl \<and> a \<noteq> tr \<longrightarrow> points h' a = points h a)"
  using assms
  by (auto simp: object_TextShape_BoundingBox_def split: option.splits object.splits prod.splits)

text \<open>An object adapter and the view it points to are two objects.\<close>

lemma adapter_not_its_view:
  assumes "objects h this = Some (TextShape_object t)" and "objects h t = Some (TextView_object tv)"
  shows "this \<noteq> t"
proof
  assume "this = t"
  with assms show False by simp
qed

lemma example_heap_objects:
  "objects example_heap 0 = Some (TextView_object (always_empty_TextView (1, 2) (10, 5) False))"
  "objects example_heap 1 = Some (TextShape_object 0)"
  "objects example_heap 2 = Some (TextShape_class (plain_TextView (1, 2) (10, 5) True))"
  by (simp_all add: example_heap_def)

lemma example_views:
  "GetOrigin (plain_TextView org ext emp) (state (plain_TextView org ext emp)) = org"
  "GetExtent (plain_TextView org ext emp) (state (plain_TextView org ext emp)) = ext"
  "IsEmpty (plain_TextView org ext emp) (state (plain_TextView org ext emp)) = emp"
  "GetOrigin (always_empty_TextView org ext emp) (state (always_empty_TextView org ext emp)) = org"
  "GetExtent (always_empty_TextView org ext emp) (state (always_empty_TextView org ext emp)) = ext"
  "IsEmpty (always_empty_TextView org ext emp) (state (always_empty_TextView org ext emp)) = True"
  by (simp_all add: always_empty_TextView_def plain_TextView_def)

subsection \<open>The bounding box\<close>

text \<open>
  Claim C1 says that \<open>BoundingBox\<close> returns the origin as bottom-left and origin + extent
  as top-right without mixing axes, so \<open>(0,0)\<close> and \<open>(10,5)\<close> for origin \<open>(0,0)\<close>, width 10
  and height 5. The code does not: both adapters bind \<open>bottom\<close> to the \<open>x\<close> that
  \<open>GetOrigin\<close> returns and \<open>left\<close> to its \<open>y\<close>, and then add the height to \<open>bottom\<close> and
  the width to \<open>left\<close>. At the input of the claim the top-right point is
  \<open>Point 5 10\<close>, not \<open>Point 10 5\<close>, for the class adapter (first store) and for the object
  adapter constructed on a view (second store). In the example store, with origin
  \<open>(1,2)\<close>, the points are \<open>Point 1 2\<close> and \<open>Point 6 12\<close>, where origin + extent is
  \<open>(11,7)\<close>.
\<close>

theorem BoundingBox_mixes_axes_at_example:
  "(case class_TextShape_BoundingBox 1 2 3
           \<lparr>objects = [1 \<mapsto> TextShape_class (plain_TextView (0, 0) (10, 5) False)],
            points = Map.empty, manipulators = []\<rparr> of
      None \<Rightarrow> False
    | Some h' \<Rightarrow> points h' 2 = Some (Point 0 0) \<and> points h' 3 = Some (Point 5 10)
        \<and> points h' 3 \<noteq> Some (Point 10 5))
   \<and> (case object_TextShape_BoundingBox 1 2 3
           (object_TextShape_TextShape 1 0
              \<lparr>objects = [0 \<mapsto> TextView_object (plain_TextView (0, 0) (10, 5) False)],
               points = Map.empty, manipulators = []\<rparr>) of
      None \<Rightarrow> False
    | Some h' \<Rightarrow> points h' 2 = Some (Point 0 0) \<and> points h' 3 = Some (Point 5 10)
        \<and> points h' 3 \<noteq> Some (Point 10 5))
   \<and> (case class_TextShape_BoundingBox 2 7 8 example_heap of
      None \<Rightarrow> False
    | Some h' \<Rightarrow> points h' 7 = Some (Point 1 2) \<and> points h' 8 = Some (Point 6 12))
   \<and> (case object_TextShape_BoundingBox 1 7 8 example_heap of
      None \<Rightarrow> False
    | Some h' \<Rightarrow> points h' 7 = Some (Point 1 2) \<and> points h' 8 = Some (Point 6 12))"
  by (simp add: class_TextShape_BoundingBox_def object_TextShape_BoundingBox_def
      object_TextShape_TextShape_def plain_TextView_def always_empty_TextView_def
      example_heap_def)

text \<open>
  Claim C5. The bounding box of the class adapter is a function of the origin and the
  extent its \<open>TextView\<close> base reports, and of nothing else. Take any two stores, a class
  adapter in each (at any addresses), with bases of any data and any member functions:
  when \<open>GetOrigin\<close> returns the same on both and \<open>GetExtent\<close> returns the same on both,
  both calls of \<open>BoundingBox\<close> return, and they assign the same point to \<open>bottomLeft\<close>
  and the same point to \<open>topRight\<close>. The emptiness, the rest of the data and the rest of
  the stores may differ.
\<close>

theorem class_BoundingBox_deterministic:
  assumes "objects h1 this1 = Some (TextShape_class tv1)"
    and "objects h2 this2 = Some (TextShape_class tv2)"
    and "GetOrigin tv1 (state tv1) = GetOrigin tv2 (state tv2)"
    and "GetExtent tv1 (state tv1) = GetExtent tv2 (state tv2)"
  shows "\<exists>h1' h2'. class_TextShape_BoundingBox this1 bl tr h1 = Some h1'
           \<and> class_TextShape_BoundingBox this2 bl tr h2 = Some h2'
           \<and> points h1' bl = points h2' bl \<and> points h1' tr = points h2' tr"
proof -
  obtain x y where o: "GetOrigin tv1 (state tv1) = (x, y)"
    by (cases "GetOrigin tv1 (state tv1)")
  obtain w ht where e: "GetExtent tv1 (state tv1) = (w, ht)"
    by (cases "GetExtent tv1 (state tv1)")
  have 1: "class_TextShape_BoundingBox this1 bl tr h1 =
        Some (h1\<lparr>points := (points h1)(bl \<mapsto> Point x y, tr \<mapsto> Point (x + ht) (y + w))\<rparr>)"
    using assms(1) o e by (rule class_BoundingBox_eq)
  have 2: "class_TextShape_BoundingBox this2 bl tr h2 =
        Some (h2\<lparr>points := (points h2)(bl \<mapsto> Point x y, tr \<mapsto> Point (x + ht) (y + w))\<rparr>)"
    using assms(2) o e assms(3,4) by (intro class_BoundingBox_eq) simp_all
  show ?thesis unfolding 1 2 by simp
qed

text \<open>
  A witness: the class adapter of the example store, whose base is a plain view that is
  empty, and a class adapter at another address of another store, whose base is of the
  subclass and holds a view that is not empty. Origin and extent agree.
\<close>

theorem class_BoundingBox_deterministic_witness:
  "objects example_heap 2 = Some (TextShape_class (plain_TextView (1, 2) (10, 5) True))
   \<and> objects \<lparr>objects = [5 \<mapsto> TextShape_class (always_empty_TextView (1, 2) (10, 5) False)],
               points = Map.empty, manipulators = []\<rparr> 5
       = Some (TextShape_class (always_empty_TextView (1, 2) (10, 5) False))
   \<and> (\<exists>h1' h2'. class_TextShape_BoundingBox 2 7 8 example_heap = Some h1'
      \<and> class_TextShape_BoundingBox 5 7 8
            \<lparr>objects = [5 \<mapsto> TextShape_class (always_empty_TextView (1, 2) (10, 5) False)],
             points = Map.empty, manipulators = []\<rparr> = Some h2'
      \<and> points h1' 7 = points h2' 7 \<and> points h1' 8 = points h2' 8)"
proof -
  let ?h2 = "\<lparr>objects = [5 \<mapsto> TextShape_class (always_empty_TextView (1, 2) (10, 5) False)],
               points = Map.empty, manipulators = []\<rparr>
             :: ((int \<times> int) \<times> (int \<times> int) \<times> bool, int) heap"
  have a: "objects ?h2 5 = Some (TextShape_class (always_empty_TextView (1, 2) (10, 5) False))"
    by simp
  have g: "GetOrigin (plain_TextView (1, 2) (10, 5) True) (state (plain_TextView (1, 2) (10, 5) True))
         = GetOrigin (always_empty_TextView (1, 2) (10, 5) False)
             (state (always_empty_TextView (1, 2) (10, 5) False))"
    and e: "GetExtent (plain_TextView (1, 2) (10, 5) True) (state (plain_TextView (1, 2) (10, 5) True))
         = GetExtent (always_empty_TextView (1, 2) (10, 5) False)
             (state (always_empty_TextView (1, 2) (10, 5) False))"
    by (simp_all add: example_views)
  from class_BoundingBox_deterministic [OF example_heap_objects(3) a g e, of 7 8]
    example_heap_objects(3) a
  show ?thesis by (intro conjI)
qed

subsection \<open>Emptiness\<close>

text \<open>
  Claim C6. \<open>IsEmpty\<close> of either adapter returns what \<open>IsEmpty\<close> of the wrapped view
  returns, unchanged: for the class adapter the \<open>TextView::IsEmpty\<close> of its own base,
  for the object adapter the (virtual) \<open>IsEmpty\<close> of the object \<open>_text\<close> points to. The
  store is the same afterwards.
\<close>

theorem IsEmpty_passthrough:
  "(objects h this = Some (TextShape_class tv) \<longrightarrow>
      class_TextShape_IsEmpty this h = Some (IsEmpty tv (state tv), h))
   \<and> (objects h this = Some (TextShape_object t) \<and> objects h t = Some (TextView_object tv) \<longrightarrow>
      object_TextShape_IsEmpty this h = Some (IsEmpty tv (state tv), h))"
  by (simp add: class_TextShape_IsEmpty_def object_TextShape_IsEmpty_def)

text \<open>
  A witness: the class adapter of the example store, with a base that is empty and with
  one that is not, and the object adapter of the example store.
\<close>

theorem IsEmpty_passthrough_witness:
  "objects example_heap 2 = Some (TextShape_class (plain_TextView (1, 2) (10, 5) True))
   \<and> class_TextShape_IsEmpty 2 example_heap = Some (True, example_heap)
   \<and> class_TextShape_IsEmpty 2
        (example_heap\<lparr>objects := (objects example_heap)
           (2 \<mapsto> TextShape_class (plain_TextView (1, 2) (10, 5) False))\<rparr>)
       = Some (False, example_heap\<lparr>objects := (objects example_heap)
           (2 \<mapsto> TextShape_class (plain_TextView (1, 2) (10, 5) False))\<rparr>)
   \<and> objects example_heap 1 = Some (TextShape_object 0)
   \<and> objects example_heap 0 = Some (TextView_object (always_empty_TextView (1, 2) (10, 5) False))
   \<and> object_TextShape_IsEmpty 1 example_heap = Some (True, example_heap)"
  using IsEmpty_passthrough [of example_heap 2 "plain_TextView (1, 2) (10, 5) True"]
    IsEmpty_passthrough [of "example_heap\<lparr>objects := (objects example_heap)
           (2 \<mapsto> TextShape_class (plain_TextView (1, 2) (10, 5) False))\<rparr>" 2
        "plain_TextView (1, 2) (10, 5) False"]
    IsEmpty_passthrough [of example_heap 1 "always_empty_TextView (1, 2) (10, 5) False" 0]
  by (simp add: example_heap_def example_views)

subsection \<open>Substituting the wrapped object\<close>




subsection \<open>The two adapters agree\<close>

text \<open>
  Claim C9. Take a class adapter and an object adapter, in any stores, whose wrapped
  views report the same origin, the same extent and the same emptiness. Then
  \<open>BoundingBox\<close> returns on both and assigns equal points to \<open>bottomLeft\<close> and equal points
  to \<open>topRight\<close>, and \<open>IsEmpty\<close> returns on both with the same result.
\<close>

theorem adapters_equivalent:
  assumes "objects h1 a = Some (TextShape_class tv1)"
    and "objects h2 b = Some (TextShape_object t)"
    and "objects h2 t = Some (TextView_object tv2)"
    and "GetOrigin tv1 (state tv1) = GetOrigin tv2 (state tv2)"
    and "GetExtent tv1 (state tv1) = GetExtent tv2 (state tv2)"
    and "IsEmpty tv1 (state tv1) = IsEmpty tv2 (state tv2)"
  shows "(\<exists>h1' h2'. class_TextShape_BoundingBox a bl tr h1 = Some h1'
            \<and> object_TextShape_BoundingBox b bl tr h2 = Some h2'
            \<and> points h1' bl = points h2' bl \<and> points h1' tr = points h2' tr)
     \<and> (\<exists>e. class_TextShape_IsEmpty a h1 = Some (e, h1)
            \<and> object_TextShape_IsEmpty b h2 = Some (e, h2))"
proof -
  obtain x y where o: "GetOrigin tv1 (state tv1) = (x, y)"
    by (cases "GetOrigin tv1 (state tv1)")
  obtain w ht where e: "GetExtent tv1 (state tv1) = (w, ht)"
    by (cases "GetExtent tv1 (state tv1)")
  have 1: "class_TextShape_BoundingBox a bl tr h1 =
        Some (h1\<lparr>points := (points h1)(bl \<mapsto> Point x y, tr \<mapsto> Point (x + ht) (y + w))\<rparr>)"
    using assms(1) o e by (rule class_BoundingBox_eq)
  have 2: "object_TextShape_BoundingBox b bl tr h2 =
        Some (h2\<lparr>points := (points h2)(bl \<mapsto> Point x y, tr \<mapsto> Point (x + ht) (y + w))\<rparr>)"
    using assms(2,3) o e assms(4,5) by (intro object_BoundingBox_eq) simp_all
  have 3: "class_TextShape_IsEmpty a h1 = Some (IsEmpty tv1 (state tv1), h1)"
    using assms(1) by (simp add: class_TextShape_IsEmpty_def)
  have 4: "object_TextShape_IsEmpty b h2 = Some (IsEmpty tv1 (state tv1), h2)"
    using assms(2,3,6) by (simp add: object_TextShape_IsEmpty_def)
  show ?thesis unfolding 1 2 3 4 by simp
qed

text \<open>
  A witness: the class adapter and the object adapter of the example store. The base of
  the first is a plain view, the second points to a view of the subclass; both report
  origin \<open>(1,2)\<close>, extent \<open>(10,5)\<close> and that they are empty.
\<close>

theorem adapters_equivalent_witness:
  "(\<exists>h1' h2'. class_TextShape_BoundingBox 2 7 8 example_heap = Some h1'
       \<and> object_TextShape_BoundingBox 1 7 8 example_heap = Some h2'
       \<and> points h1' 7 = points h2' 7 \<and> points h1' 8 = points h2' 8)
   \<and> (\<exists>e. class_TextShape_IsEmpty 2 example_heap = Some (e, example_heap)
       \<and> object_TextShape_IsEmpty 1 example_heap = Some (e, example_heap))"
proof -
  have g: "GetOrigin (plain_TextView (1, 2) (10, 5) True) (state (plain_TextView (1, 2) (10, 5) True))
         = GetOrigin (always_empty_TextView (1, 2) (10, 5) False)
             (state (always_empty_TextView (1, 2) (10, 5) False))"
    and e: "GetExtent (plain_TextView (1, 2) (10, 5) True) (state (plain_TextView (1, 2) (10, 5) True))
         = GetExtent (always_empty_TextView (1, 2) (10, 5) False)
             (state (always_empty_TextView (1, 2) (10, 5) False))"
    and i: "IsEmpty (plain_TextView (1, 2) (10, 5) True) (state (plain_TextView (1, 2) (10, 5) True))
         = IsEmpty (always_empty_TextView (1, 2) (10, 5) False)
             (state (always_empty_TextView (1, 2) (10, 5) False))"
    by (simp_all add: example_views)
  show ?thesis
    by (rule adapters_equivalent
        [OF example_heap_objects(3) example_heap_objects(2) example_heap_objects(1) g e i])
qed

subsection \<open>Manipulators\<close>

text \<open>
  Claim C7. \<open>CreateManipulator\<close> of either adapter returns the address of a new object:
  the first unused address, where afterwards stands a \<open>TextManipulator\<close> constructed
  for the adapter \<open>this\<close>; the manipulators that existed are kept, and no other object
  and no point changes. For an object adapter that wraps the view at \<open>t\<close>, the adapter
  and the view are two objects and the new manipulator is not one constructed for the
  view. The wrapped view is not read at all.
\<close>

theorem CreateManipulator_new_for_adapter:
  "(case class_TextShape_CreateManipulator this h of (p, h') \<Rightarrow>
      p = length (manipulators h) \<and> manipulators h' = manipulators h @ [TextManipulator this]
      \<and> manipulators h' ! p = TextManipulator this
      \<and> objects h' = objects h \<and> points h' = points h)
   \<and> (case object_TextShape_CreateManipulator this h of (p, h') \<Rightarrow>
      p = length (manipulators h) \<and> manipulators h' = manipulators h @ [TextManipulator this]
      \<and> manipulators h' ! p = TextManipulator this
      \<and> objects h' = objects h \<and> points h' = points h)
   \<and> (objects h this = Some (TextShape_object t) \<and> objects h t = Some (TextView_object tv) \<longrightarrow>
      this \<noteq> t
      \<and> (case object_TextShape_CreateManipulator this h of (p, h') \<Rightarrow>
            manipulators h' ! p \<noteq> TextManipulator t))"
proof (intro conjI impI)
  show "case class_TextShape_CreateManipulator this h of (p, h') \<Rightarrow>
      p = length (manipulators h) \<and> manipulators h' = manipulators h @ [TextManipulator this]
      \<and> manipulators h' ! p = TextManipulator this
      \<and> objects h' = objects h \<and> points h' = points h"
    by (simp add: class_TextShape_CreateManipulator_def new_TextManipulator_def)
  show "case object_TextShape_CreateManipulator this h of (p, h') \<Rightarrow>
      p = length (manipulators h) \<and> manipulators h' = manipulators h @ [TextManipulator this]
      \<and> manipulators h' ! p = TextManipulator this
      \<and> objects h' = objects h \<and> points h' = points h"
    by (simp add: object_TextShape_CreateManipulator_def new_TextManipulator_def)
next
  assume "objects h this = Some (TextShape_object t) \<and> objects h t = Some (TextView_object tv)"
  then show ne: "this \<noteq> t" using adapter_not_its_view by blast
  then show "case object_TextShape_CreateManipulator this h of (p, h') \<Rightarrow>
            manipulators h' ! p \<noteq> TextManipulator t"
    by (simp add: object_TextShape_CreateManipulator_def new_TextManipulator_def)
qed

text \<open>
  A witness: in the example store, where one manipulator exists at address 0, both
  adapters return the new address 1; the manipulator of the object adapter at address
  1 is constructed for address 1, not for its view at address 0.
\<close>

theorem CreateManipulator_new_for_adapter_witness:
  "objects example_heap 1 = Some (TextShape_object 0)
   \<and> objects example_heap 0 = Some (TextView_object (always_empty_TextView (1, 2) (10, 5) False))
   \<and> object_TextShape_CreateManipulator 1 example_heap
       = (1, example_heap\<lparr>manipulators := [TextManipulator 2, TextManipulator 1]\<rparr>)
   \<and> class_TextShape_CreateManipulator 2 example_heap
       = (1, example_heap\<lparr>manipulators := [TextManipulator 2, TextManipulator 2]\<rparr>)
   \<and> (case object_TextShape_CreateManipulator 1 example_heap of (p, h') \<Rightarrow>
         manipulators h' ! p \<noteq> TextManipulator 0)"
proof -
  have o: "object_TextShape_CreateManipulator 1 example_heap
       = (1, example_heap\<lparr>manipulators := [TextManipulator 2, TextManipulator 1]\<rparr>)"
    and c: "class_TextShape_CreateManipulator 2 example_heap
       = (1, example_heap\<lparr>manipulators := [TextManipulator 2, TextManipulator 2]\<rparr>)"
    by (simp_all add: object_TextShape_CreateManipulator_def class_TextShape_CreateManipulator_def
        new_TextManipulator_def example_heap_def)
  have "case object_TextShape_CreateManipulator 1 example_heap of (p, h') \<Rightarrow>
         manipulators h' ! p \<noteq> TextManipulator 0"
    using CreateManipulator_new_for_adapter [where this = 1 and h = example_heap and t = 0
        and tv = "always_empty_TextView (1, 2) (10, 5) False"]
      example_heap_objects(2) example_heap_objects(1)
    by (elim conjE impE) (rule conjI, assumption+)
  with example_heap_objects(2) example_heap_objects(1) o c show ?thesis by (intro conjI)
qed

subsection \<open>The queries change nothing\<close>

text \<open>
  Claim C10. A call of \<open>BoundingBox\<close> on either adapter that returns leaves every object
  as it was, the adapter and the wrapped view among them, and every manipulator; of
  the points it changes at most the two it was given, \<open>bottomLeft\<close> and \<open>topRight\<close>. A
  call of \<open>IsEmpty\<close> on either adapter that returns leaves the whole store as it was.
  (That the \<open>const\<close> member functions of \<open>TextView\<close> change nothing is their declaration;
  their bodies are not in the source.)
\<close>

theorem queries_read_only:
  "(class_TextShape_BoundingBox this bl tr h = Some h' \<longrightarrow>
      objects h' = objects h \<and> manipulators h' = manipulators h
      \<and> (\<forall>a. a \<noteq> bl \<and> a \<noteq> tr \<longrightarrow> points h' a = points h a))
   \<and> (object_TextShape_BoundingBox this bl tr h = Some h' \<longrightarrow>
      objects h' = objects h \<and> manipulators h' = manipulators h
      \<and> (\<forall>a. a \<noteq> bl \<and> a \<noteq> tr \<longrightarrow> points h' a = points h a))
   \<and> (class_TextShape_IsEmpty this h = Some (e, h') \<longrightarrow> h' = h)
   \<and> (object_TextShape_IsEmpty this h = Some (e, h') \<longrightarrow> h' = h)"
proof (intro conjI impI)
  assume "class_TextShape_IsEmpty this h = Some (e, h')"
  then show "h' = h"
    by (auto simp: class_TextShape_IsEmpty_def split: option.splits object.splits)
next
  assume "object_TextShape_IsEmpty this h = Some (e, h')"
  then show "h' = h"
    by (auto simp: object_TextShape_IsEmpty_def split: option.splits object.splits)
qed (use class_BoundingBox_frame object_BoundingBox_frame in blast)+

text \<open>
  A witness: in the example store both adapters assign \<open>Point 1 2\<close> to the point at
  address 7 and \<open>Point 6 12\<close> to the point at address 8; the objects, the manipulators
  and the point at address 9 are as before, and \<open>IsEmpty\<close> returns the store it was
  given.
\<close>

theorem queries_read_only_witness:
  "class_TextShape_BoundingBox 2 7 8 example_heap
     = Some (example_heap\<lparr>points := [7 \<mapsto> Point 1 2, 9 \<mapsto> Point 3 4, 8 \<mapsto> Point 6 12]\<rparr>)
   \<and> object_TextShape_BoundingBox 1 7 8 example_heap
     = Some (example_heap\<lparr>points := [7 \<mapsto> Point 1 2, 9 \<mapsto> Point 3 4, 8 \<mapsto> Point 6 12]\<rparr>)
   \<and> objects (example_heap\<lparr>points := [7 \<mapsto> Point 1 2, 9 \<mapsto> Point 3 4, 8 \<mapsto> Point 6 12]\<rparr>)
       = objects example_heap
   \<and> manipulators (example_heap\<lparr>points := [7 \<mapsto> Point 1 2, 9 \<mapsto> Point 3 4, 8 \<mapsto> Point 6 12]\<rparr>)
       = manipulators example_heap
   \<and> points (example_heap\<lparr>points := [7 \<mapsto> Point 1 2, 9 \<mapsto> Point 3 4, 8 \<mapsto> Point 6 12]\<rparr>) 9
       = points example_heap 9
   \<and> class_TextShape_IsEmpty 2 example_heap = Some (True, example_heap)
   \<and> object_TextShape_IsEmpty 1 example_heap = Some (True, example_heap)"
proof -
  let ?h' = "example_heap\<lparr>points := [7 \<mapsto> Point 1 2, 9 \<mapsto> Point 3 4, 8 \<mapsto> Point 6 12]\<rparr>"
  have c: "class_TextShape_BoundingBox 2 7 8 example_heap = Some ?h'"
    by (simp add: class_TextShape_BoundingBox_def example_heap_def plain_TextView_def
        always_empty_TextView_def fun_upd_twist)
  have ob: "object_TextShape_BoundingBox 1 7 8 example_heap = Some ?h'"
    by (simp add: object_TextShape_BoundingBox_def example_heap_def plain_TextView_def
        always_empty_TextView_def fun_upd_twist)
  have ce: "class_TextShape_IsEmpty 2 example_heap = Some (True, example_heap)"
    by (simp add: class_TextShape_IsEmpty_def example_heap_def plain_TextView_def)
  have oe: "object_TextShape_IsEmpty 1 example_heap = Some (True, example_heap)"
    by (simp add: object_TextShape_IsEmpty_def example_heap_def plain_TextView_def
        always_empty_TextView_def)
  have n: "(9::nat) \<noteq> 7 \<and> (9::nat) \<noteq> 8" by simp
  from queries_read_only [where this = 2 and bl = 7 and tr = 8 and h = example_heap and h' = ?h'] c n
  have 1: "objects ?h' = objects example_heap \<and> manipulators ?h' = manipulators example_heap
     \<and> points ?h' 9 = points example_heap 9"
    by blast
  from queries_read_only [where this = 1 and bl = 7 and tr = 8 and h = example_heap and h' = ?h'] ob n
  have 2: "objects ?h' = objects example_heap \<and> manipulators ?h' = manipulators example_heap
     \<and> points ?h' 9 = points example_heap 9"
    by blast
  from queries_read_only [where this = 2 and h = example_heap and h' = example_heap and e = True] ce
  have 3: "example_heap = example_heap"
    by blast
  from queries_read_only [where this = 1 and h = example_heap and h' = example_heap and e = True] oe
  have 4: "example_heap = example_heap"
    by blast
  from 1 2 3 4 c ob ce oe show ?thesis by (intro conjI) simp_all
qed

end
